theory Spec2Isabelle
  imports Main
begin

section \<open>Data model\<close>

text \<open>
  The development embeds \<^verbatim>\<open>pyrit/prompt_normalizer/prompt_normalizer.py\<close>. Python objects
  are values; every in-place mutation of the source is an updated value returned by the
  model. The pieces of one request are distinct objects in the source (each is built by
  its own constructor call), so value semantics loses no aliasing.

  The classes of the data model are declared in other modules. Each record below has the
  attributes the normalizer reads or writes, under the source's names, with three changes
  forced by the logic: the seed prompt's \<^verbatim>\<open>value\<close> is \<open>seed_value\<close>, the attributes of a
  normalizer request carry the prefix \<open>nr_\<close>, and the two \<^verbatim>\<open>get_identifier\<close> methods carry
  the name of their class.

  Identifiers, labels and metadata are Python dictionaries of strings; they are only stored
  and copied here, so they are association lists.
\<close>

type_synonym py_dict = "(string \<times> string) list"

text \<open>
  Exceptions deriving from Python's \<^verbatim>\<open>Exception\<close>, each with the text that \<^verbatim>\<open>str(ex)\<close>
  gives. \<^verbatim>\<open>except EmptyResponseException\<close> selects the first constructor,
  \<^verbatim>\<open>except Exception\<close> every other one. What derives from \<^verbatim>\<open>BaseException\<close> alone, a
  cancellation for one, passes both handlers and is not part of the model.
\<close>

datatype py_exception =
    EmptyResponseException string
  | IndexError string
  | Exception string

fun str :: "py_exception \<Rightarrow> string" where
  "str (EmptyResponseException m) = m"
| "str (IndexError m) = m"
| "str (Exception m) = m"

record SeedPrompt =
  seed_value :: string
  data_type :: string
  metadata :: "py_dict option"

record SeedPromptGroup =
  prompts :: "SeedPrompt list"

record PromptRequestPiece =
  role :: string
  original_value :: string
  original_value_data_type :: string
  converted_value :: string
  converted_value_data_type :: string
  conversation_id :: string
  sequence :: int
  labels :: "py_dict option"
  prompt_metadata :: "py_dict option"
  prompt_target_identifier :: py_dict
  orchestrator_identifier :: "py_dict option"
  converter_identifiers :: "py_dict list"
  response_error :: string
  original_value_sha256 :: "string option"
  converted_value_sha256 :: "string option"

record PromptRequestResponse =
  request_pieces :: "PromptRequestPiece list"

record ConverterResult =
  output_text :: string
  output_type :: string

text \<open>
  A converter is the capability the source calls: \<^verbatim>\<open>get_identifier()\<close> and
  \<^verbatim>\<open>convert_tokens_async(prompt, input_type, start_token, end_token)\<close>, a deterministic
  function of its four arguments.
\<close>

record PromptConverter =
  converter_get_identifier :: py_dict
  convert_tokens_async :: "string \<Rightarrow> string \<Rightarrow> string \<Rightarrow> string \<Rightarrow> ConverterResult"

record PromptConverterConfiguration =
  converters :: "PromptConverter list"
  indexes_to_apply :: "int list option"
  prompt_data_types_to_apply :: "string list option"

text \<open>
  The endpoint: \<^verbatim>\<open>send_prompt_async(prompt_request=...)\<close> returns a response, returns
  \<^verbatim>\<open>None\<close>, or raises.
\<close>

record PromptTarget =
  target_get_identifier :: py_dict
  target_send_prompt_async :: "PromptRequestResponse \<Rightarrow> py_exception + PromptRequestResponse option"

record PromptNormalizer =
  start_token :: string
  end_token :: string

text \<open>
  The store behind \<^verbatim>\<open>self._memory\<close>: the entries written so far, oldest first. An entry is
  the value the request or response had when it was written.
\<close>

type_synonym memory = "PromptRequestResponse list"

section \<open>Collaborators outside the sources\<close>

text \<open>
  Modelled from the spec: the constructor of \<^verbatim>\<open>PromptRequestPiece\<close> (\<^verbatim>\<open>pyrit.models\<close>) is not
  among the sources. A piece holds the fields of section 3 of the specification; a new
  piece has no converter applied yet, so its converted value and type are the original
  ones, its applied-converter list is empty, it carries no error kind and no hash.
\<close>

definition new_PromptRequestPiece ::
  "string \<Rightarrow> string \<Rightarrow> string \<Rightarrow> string \<Rightarrow> int \<Rightarrow> py_dict option \<Rightarrow> py_dict option \<Rightarrow>
   py_dict \<Rightarrow> py_dict option \<Rightarrow> string \<Rightarrow> PromptRequestPiece" where
  "new_PromptRequestPiece r v ty cid sq lbls md tid oid err =
     \<lparr> role = r,
       original_value = v,
       original_value_data_type = ty,
       converted_value = v,
       converted_value_data_type = ty,
       conversation_id = cid,
       sequence = sq,
       labels = lbls,
       prompt_metadata = md,
       prompt_target_identifier = tid,
       orchestrator_identifier = oid,
       converter_identifiers = [],
       response_error = err,
       original_value_sha256 = None,
       converted_value_sha256 = None \<rparr>"

text \<open>
  Modelled from the spec: \<^verbatim>\<open>construct_response_from_request\<close> (\<^verbatim>\<open>pyrit.models\<close>) is not among
  the sources. It synthesizes the response to a request piece: one piece for each given
  text, of the given data type and error kind, in the request's conversation and with the
  request's labels, endpoint identifier and orchestrator identifier.
\<close>

definition construct_response_from_request ::
  "PromptRequestPiece \<Rightarrow> string list \<Rightarrow> string \<Rightarrow> string \<Rightarrow> PromptRequestResponse" where
  "construct_response_from_request request response_text_pieces response_type error =
     \<lparr> request_pieces =
         map (\<lambda>resp_text.
               new_PromptRequestPiece ''assistant'' resp_text response_type
                 (conversation_id request) (-1) (labels request) None
                 (prompt_target_identifier request) (orchestrator_identifier request) error)
             response_text_pieces \<rparr>"

text \<open>
  Modelled from the spec: \<^verbatim>\<open>PromptRequestPiece.set_sha256_values_async\<close> is not among the
  sources. It stores the content hash of the piece's values as they are at the call; the
  hash function is the parameter \<open>H\<close>.
\<close>

definition set_sha256_values_async :: "(string \<Rightarrow> string) \<Rightarrow> PromptRequestPiece \<Rightarrow> PromptRequestPiece" where
  "set_sha256_values_async H piece =
     piece\<lparr> original_value_sha256 := Some (H (original_value piece)),
            converted_value_sha256 := Some (H (converted_value piece)) \<rparr>"

text \<open>
  Modelled from the spec: \<^verbatim>\<open>MemoryInterface.add_request_response_to_memory\<close> is not among the
  sources. The store is a sink: it records the request as it is handed over.
\<close>

definition add_request_response_to_memory :: "PromptRequestResponse \<Rightarrow> memory \<Rightarrow> memory" where
  "add_request_response_to_memory request mem = mem @ [request]"

section \<open>The normalizer\<close>

subsection \<open>\<^verbatim>\<open>convert_values\<close>\<close>

text \<open>Python's truth value of an optional list: \<^verbatim>\<open>None\<close> and the empty list are false.\<close>

fun truthy :: "'a list option \<Rightarrow> bool" where
  "truthy None = False"
| "truthy (Some xs) = (xs \<noteq> [])"

fun py_in :: "'a \<Rightarrow> 'a list option \<Rightarrow> bool" where
  "py_in x None = False"
| "py_in x (Some xs) = (x \<in> set xs)"

text \<open>The innermost loop: each converter receives the text and type the one before it produced.\<close>

fun run_converters :: "PromptNormalizer \<Rightarrow> PromptConverter list \<Rightarrow> string \<Rightarrow> string \<Rightarrow> string \<times> string" where
  "run_converters self [] converted_text converted_text_data_type =
     (converted_text, converted_text_data_type)"
| "run_converters self (converter # rest) converted_text converted_text_data_type =
     (let converter_result =
            convert_tokens_async converter converted_text converted_text_data_type
              (start_token self) (end_token self)
      in run_converters self rest (output_text converter_result) (output_type converter_result))"

text \<open>The two \<^verbatim>\<open>continue\<close> tests of the loop body.\<close>

definition skips :: "PromptConverterConfiguration \<Rightarrow> nat \<Rightarrow> PromptRequestPiece \<Rightarrow> bool" where
  "skips converter_configuration piece_index piece =
     (let indexes = indexes_to_apply converter_configuration;
          data_types = prompt_data_types_to_apply converter_configuration
      in (truthy indexes \<and> \<not> py_in (int piece_index) indexes)
         \<or> (truthy data_types \<and> \<not> py_in (converted_value_data_type piece) data_types))"

text \<open>The body of the inner loop, for one configuration and one piece.\<close>

definition convert_piece ::
  "PromptNormalizer \<Rightarrow> PromptConverterConfiguration \<Rightarrow> nat \<Rightarrow> PromptRequestPiece \<Rightarrow> PromptRequestPiece" where
  "convert_piece self converter_configuration piece_index piece =
     (if skips converter_configuration piece_index piece then piece
      else
        let piece1 = piece\<lparr> converter_identifiers :=
                       converter_identifiers piece
                       @ map converter_get_identifier (converters converter_configuration) \<rparr>;
            (converted_text, converted_text_data_type) =
               run_converters self (converters converter_configuration)
                 (converted_value piece1) (converted_value_data_type piece1)
        in piece1\<lparr> converted_value := converted_text,
                   converted_value_data_type := converted_text_data_type \<rparr>)"

text \<open>The inner loop over \<^verbatim>\<open>enumerate(request_response.request_pieces)\<close>.\<close>

fun convert_pieces ::
  "PromptNormalizer \<Rightarrow> PromptConverterConfiguration \<Rightarrow> nat \<Rightarrow> PromptRequestPiece list \<Rightarrow> PromptRequestPiece list" where
  "convert_pieces self converter_configuration piece_index [] = []"
| "convert_pieces self converter_configuration piece_index (piece # rest) =
     convert_piece self converter_configuration piece_index piece
     # convert_pieces self converter_configuration (Suc piece_index) rest"

text \<open>The outer loop over the configurations.\<close>

fun convert_values ::
  "PromptNormalizer \<Rightarrow> PromptConverterConfiguration list \<Rightarrow> PromptRequestResponse \<Rightarrow> PromptRequestResponse" where
  "convert_values self [] request_response = request_response"
| "convert_values self (converter_configuration # rest) request_response =
     convert_values self rest
       (request_response\<lparr> request_pieces :=
          convert_pieces self converter_configuration 0 (request_pieces request_response) \<rparr>)"

subsection \<open>\<^verbatim>\<open>_calc_hash_and_add_request_to_memory\<close>\<close>

text \<open>
  The first two statements: one hashing task for each piece, all awaited. The pieces are
  independent, so the order in which the tasks run does not show in the result.
\<close>

definition gather_sha256_tasks :: "(string \<Rightarrow> string) \<Rightarrow> PromptRequestResponse \<Rightarrow> PromptRequestResponse" where
  "gather_sha256_tasks H request =
     request\<lparr> request_pieces := map (set_sha256_values_async H) (request_pieces request) \<rparr>"

text \<open>
  The pieces of the request get their hashes, then the request is written to the store.
  The result is the request as mutated, and the store.
\<close>

definition calc_hash_and_add_request_to_memory ::
  "(string \<Rightarrow> string) \<Rightarrow> PromptRequestResponse \<Rightarrow> memory \<Rightarrow> PromptRequestResponse \<times> memory" where
  "calc_hash_and_add_request_to_memory H request mem =
     (let request1 = gather_sha256_tasks H request
      in (request1, add_request_response_to_memory request1 mem))"

subsection \<open>\<^verbatim>\<open>_build_prompt_request_response\<close>\<close>

text \<open>
  \<open>uuid\<close> is the value \<^verbatim>\<open>str(uuid4())\<close> gives in this call. The conversation identifier the
  caller passes is optional; \<^verbatim>\<open>None\<close> and the empty string are both false in Python.
\<close>

definition resolve_conversation_id :: "string option \<Rightarrow> string \<Rightarrow> string" where
  "resolve_conversation_id conversation_id' uuid =
     (case conversation_id' of
        None \<Rightarrow> uuid
      | Some c \<Rightarrow> (if c \<noteq> [] then c else uuid))"

definition build_prompt_request_response ::
  "PromptNormalizer \<Rightarrow> SeedPromptGroup \<Rightarrow> string option \<Rightarrow> PromptConverterConfiguration list \<Rightarrow>
   PromptTarget \<Rightarrow> int \<Rightarrow> py_dict option \<Rightarrow> py_dict option \<Rightarrow> string \<Rightarrow> PromptRequestResponse" where
  "build_prompt_request_response self seed_prompt_group conversation_id'
       request_converter_configurations target sequence' labels' orchestrator_identifier' uuid =
     (let conversation_id1 = resolve_conversation_id conversation_id' uuid;
          entries =
            map (\<lambda>seed_prompt.
                   new_PromptRequestPiece ''user'' (seed_value seed_prompt)
                     (data_type seed_prompt) conversation_id1 sequence' labels'
                     (metadata seed_prompt) (target_get_identifier target)
                     orchestrator_identifier' ''none'')
                (prompts seed_prompt_group);
          response = \<lparr> request_pieces = entries \<rparr>
      in convert_values self request_converter_configurations response)"

subsection \<open>\<^verbatim>\<open>send_prompt_async\<close>\<close>

text \<open>The statements after the \<^verbatim>\<open>try\<close> block, reached with the value of \<^verbatim>\<open>response\<close>.\<close>

definition after_try ::
  "(string \<Rightarrow> string) \<Rightarrow> PromptNormalizer \<Rightarrow> PromptConverterConfiguration list \<Rightarrow>
   PromptRequestResponse option \<Rightarrow> memory \<Rightarrow>
   (py_exception + PromptRequestResponse option) \<times> memory" where
  "after_try H self response_converter_configurations response mem =
     (case response of
        None \<Rightarrow> (Inr None, mem)
      | Some response1 \<Rightarrow>
          (let response2 = convert_values self response_converter_configurations response1;
               (response3, mem1) = calc_hash_and_add_request_to_memory H response2 mem
           in (Inr (Some response3), mem1)))"

fun is_EmptyResponseException :: "py_exception \<Rightarrow> bool" where
  "is_EmptyResponseException (EmptyResponseException m) = True"
| "is_EmptyResponseException (IndexError m) = False"
| "is_EmptyResponseException (Exception m) = False"

text \<open>
  The result is what the call returns (\<open>Inr\<close>) or raises (\<open>Inl\<close>), and the store as the call
  leaves it. \<^verbatim>\<open>request.request_pieces[0]\<close> raises \<^verbatim>\<open>IndexError\<close> on a request without
  pieces; raised inside an \<^verbatim>\<open>except\<close> block, it replaces the exception being handled.
  The endpoint reads the request and does not change it, and what it answers is a function
  of the request.
\<close>

definition send_prompt_async ::
  "(string \<Rightarrow> string) \<Rightarrow> PromptNormalizer \<Rightarrow> SeedPromptGroup \<Rightarrow> PromptTarget \<Rightarrow> string option \<Rightarrow>
   PromptConverterConfiguration list \<Rightarrow> PromptConverterConfiguration list \<Rightarrow> int \<Rightarrow>
   py_dict option \<Rightarrow> py_dict option \<Rightarrow> string \<Rightarrow> memory \<Rightarrow>
   (py_exception + PromptRequestResponse option) \<times> memory" where
  "send_prompt_async H self seed_prompt_group target conversation_id'
       request_converter_configurations response_converter_configurations
       sequence' labels' orchestrator_identifier' uuid mem =
     (let request =
            build_prompt_request_response self seed_prompt_group conversation_id'
              request_converter_configurations target sequence' labels'
              orchestrator_identifier' uuid
      in case target_send_prompt_async target request of
           Inr response \<Rightarrow>
             (let (request1, mem1) = calc_hash_and_add_request_to_memory H request mem
              in after_try H self response_converter_configurations response mem1)
         | Inl ex \<Rightarrow>
             if is_EmptyResponseException ex then
               (let (request1, mem1) = calc_hash_and_add_request_to_memory H request mem
                in case request_pieces request1 of
                     [] \<Rightarrow> (Inl (IndexError ''list index out of range''), mem1)
                   | piece0 # _ \<Rightarrow>
                       after_try H self response_converter_configurations
                         (Some (construct_response_from_request piece0 [''''] ''text'' ''empty''))
                         mem1)
             else
               (let (request1, mem1) = calc_hash_and_add_request_to_memory H request mem
                in case request_pieces request1 of
                     [] \<Rightarrow> (Inl (IndexError ''list index out of range''), mem1)
                   | piece0 # _ \<Rightarrow>
                       (let error_response =
                              construct_response_from_request piece0 [str ex] ''error'' ''processing'';
                            (error_response1, mem2) =
                              calc_hash_and_add_request_to_memory H error_response mem1
                        in (Inl ex, mem2))))"

subsection \<open>\<^verbatim>\<open>send_prompt_batch_to_target_async\<close>\<close>

record NormalizerRequest =
  nr_seed_prompt_group :: SeedPromptGroup
  nr_request_converter_configurations :: "PromptConverterConfiguration list"
  nr_response_converter_configurations :: "PromptConverterConfiguration list"
  nr_conversation_id :: "string option"

text \<open>
  Modelled from the spec: \<^verbatim>\<open>batch_task_async\<close> (\<^verbatim>\<open>pyrit.common.batch_helper\<close>) is not among the
  sources. It runs the task once for every position of the batched lists, with the items
  at that position as arguments. The tasks complete in some order, the list \<open>order\<close> of
  positions; each completion writes its result into a buffer at the task's own position,
  and the buffer is what the coordinator hands back. A position that never completed holds
  \<open>None\<close>. The result of a task is its outcome, returned or raised: the specification
  leaves open what the coordinator does after a failed item. The concurrency limit only
  restricts which completion orders can occur; the model admits every order.
\<close>

fun complete_tasks ::
  "(nat \<Rightarrow> 'a \<Rightarrow> 'b \<Rightarrow> 'c \<Rightarrow> 'd \<Rightarrow> memory \<Rightarrow> 'r \<times> memory) \<Rightarrow>
   'a list \<times> 'b list \<times> 'c list \<times> 'd list \<Rightarrow> nat list \<Rightarrow> 'r option list \<Rightarrow> memory \<Rightarrow>
   'r option list \<times> memory" where
  "complete_tasks task_func items_to_batch [] buffer mem = (buffer, mem)"
| "complete_tasks task_func (as, bs, cs, ds) (i # rest) buffer mem =
     (if i < length as \<and> i < length bs \<and> i < length cs \<and> i < length ds then
        (let (result, mem1) = task_func i (as ! i) (bs ! i) (cs ! i) (ds ! i) mem
         in complete_tasks task_func (as, bs, cs, ds) rest (buffer[i := Some result]) mem1)
      else complete_tasks task_func (as, bs, cs, ds) rest buffer mem)"

definition batch_task_async ::
  "nat list \<Rightarrow> 'a list \<times> 'b list \<times> 'c list \<times> 'd list \<Rightarrow>
   (nat \<Rightarrow> 'a \<Rightarrow> 'b \<Rightarrow> 'c \<Rightarrow> 'd \<Rightarrow> memory \<Rightarrow> 'r \<times> memory) \<Rightarrow> memory \<Rightarrow>
   'r option list \<times> memory" where
  "batch_task_async order items_to_batch task_func mem =
     complete_tasks task_func items_to_batch order
       (replicate (length (fst items_to_batch)) None) mem"

text \<open>
  The four batched lists are the source's comprehensions over \<^verbatim>\<open>requests\<close>, and the task is
  \<^verbatim>\<open>self.send_prompt_async\<close> with the keyword arguments of the source; the sequence number
  is the default \<open>-1\<close>. \<open>uuids i\<close> is the value \<^verbatim>\<open>str(uuid4())\<close> gives in the dispatch of the
  request at position \<open>i\<close>.
\<close>

definition send_prompt_batch_to_target_async ::
  "(string \<Rightarrow> string) \<Rightarrow> PromptNormalizer \<Rightarrow> NormalizerRequest list \<Rightarrow> PromptTarget \<Rightarrow>
   py_dict option \<Rightarrow> py_dict option \<Rightarrow> (nat \<Rightarrow> string) \<Rightarrow> nat list \<Rightarrow> memory \<Rightarrow>
   (py_exception + PromptRequestResponse option) option list \<times> memory" where
  "send_prompt_batch_to_target_async H self requests target labels' orchestrator_identifier'
       uuids order mem =
     (let batch_items =
            (map nr_seed_prompt_group requests,
             map nr_request_converter_configurations requests,
             map nr_response_converter_configurations requests,
             map nr_conversation_id requests)
      in batch_task_async order batch_items
           (\<lambda>i seed_prompt_group request_converter_configurations
               response_converter_configurations conversation_id'.
              send_prompt_async H self seed_prompt_group target conversation_id'
                request_converter_configurations response_converter_configurations
                (-1) labels' orchestrator_identifier' (uuids i))
           mem)"

section \<open>Notions used in the properties\<close>

text \<open>
  Every attribute of a piece but the three \<^verbatim>\<open>convert_values\<close> assigns: the converted value,
  the converted data type and the converter identifiers.
\<close>

definition frame_fields ::
  "PromptRequestPiece \<Rightarrow>
   string \<times> string \<times> string \<times> string \<times> int \<times> py_dict option \<times> py_dict option \<times> py_dict \<times>
   py_dict option \<times> string \<times> string option \<times> string option" where
  "frame_fields p =
     (role p, original_value p, original_value_data_type p, conversation_id p, sequence p,
      labels p, prompt_metadata p, prompt_target_identifier p, orchestrator_identifier p,
      response_error p, original_value_sha256 p, converted_value_sha256 p)"

text \<open>One converter call of the innermost loop, on a pair of text and data type.\<close>

definition convert_once :: "PromptNormalizer \<Rightarrow> PromptConverter \<Rightarrow> string \<times> string \<Rightarrow> string \<times> string" where
  "convert_once self converter vt =
     (let converter_result =
            convert_tokens_async converter (fst vt) (snd vt) (start_token self) (end_token self)
      in (output_text converter_result, output_type converter_result))"

definition converted :: "PromptRequestPiece \<Rightarrow> string \<times> string" where
  "converted piece = (converted_value piece, converted_value_data_type piece)"

text \<open>
  The filter as the specification words it: the chain applies to a piece iff (index set is
  empty or piece index in index set) and (type set is empty or the piece's current data type
  in type set). An absent set counts as empty.
\<close>

fun opt_set :: "'a list option \<Rightarrow> 'a set" where
  "opt_set None = {}"
| "opt_set (Some xs) = set xs"

definition chain_applies :: "int set \<Rightarrow> string set \<Rightarrow> int \<Rightarrow> string \<Rightarrow> bool" where
  "chain_applies index_set type_set piece_index piece_type =
     ((index_set = {} \<or> piece_index \<in> index_set) \<and> (type_set = {} \<or> piece_type \<in> type_set))"

text \<open>A piece whose stored hash is the hash of its converted value, and a store of such pieces.\<close>

definition hash_matches :: "(string \<Rightarrow> string) \<Rightarrow> PromptRequestPiece \<Rightarrow> bool" where
  "hash_matches H piece = (converted_value_sha256 piece = Some (H (converted_value piece)))"

definition memory_hashes_match :: "(string \<Rightarrow> string) \<Rightarrow> memory \<Rightarrow> bool" where
  "memory_hashes_match H mem = list_all (\<lambda>entry. list_all (hash_matches H) (request_pieces entry)) mem"

section \<open>Example data\<close>

text \<open>
  Concrete inputs on which the properties below are evaluated: a normalizer, a stand-in for
  the hash function, two converters that do not commute (one appends a suffix, one turns
  \<open>a\<close> into \<open>A\<close>), a group of two seed prompts, an endpoint with a fixed outcome and one
  that echoes the request, a configuration for the piece at index 0, one for text pieces,
  one for responses, and a batch of two requests. \<open>summary\<close> shows the role, converted value and type, error kind and hash of
  the pieces of a store entry.
\<close>

definition example_normalizer :: PromptNormalizer where
  "example_normalizer = \<lparr> start_token = ''<<'', end_token = ''>>'' \<rparr>"

definition example_hash :: "string \<Rightarrow> string" where
  "example_hash s = ''#'' @ s"

definition append_converter :: "string \<Rightarrow> PromptConverter" where
  "append_converter suffix =
     \<lparr> converter_get_identifier = [(''__type__'', suffix)],
       convert_tokens_async =
         (\<lambda>prompt input_type start_token' end_token'.
            \<lparr> output_text = prompt @ suffix, output_type = input_type \<rparr>) \<rparr>"

definition upper_a_converter :: PromptConverter where
  "upper_a_converter =
     \<lparr> converter_get_identifier = [(''__type__'', ''UpperA'')],
       convert_tokens_async =
         (\<lambda>prompt input_type start_token' end_token'.
            \<lparr> output_text = map (\<lambda>c. if c = CHR ''a'' then CHR ''A'' else c) prompt,
              output_type = input_type \<rparr>) \<rparr>"

definition example_group :: SeedPromptGroup where
  "example_group =
     \<lparr> prompts = [\<lparr> seed_value = ''a'', data_type = ''text'', metadata = None \<rparr>,
                  \<lparr> seed_value = ''b'', data_type = ''image_path'', metadata = Some [(''k'', ''v'')] \<rparr>] \<rparr>"

definition constant_target :: "py_exception + PromptRequestResponse option \<Rightarrow> PromptTarget" where
  "constant_target outcome =
     \<lparr> target_get_identifier = [(''__type__'', ''ConstantTarget'')],
       target_send_prompt_async = (\<lambda>prompt_request. outcome) \<rparr>"

definition echo_target :: PromptTarget where
  "echo_target =
     \<lparr> target_get_identifier = [(''__type__'', ''EchoTarget'')],
       target_send_prompt_async =
         (\<lambda>prompt_request.
            case request_pieces prompt_request of
              [] \<Rightarrow> Inl (Exception ''Empty request pieces.'')
            | piece0 # _ \<Rightarrow>
                Inr (Some (construct_response_from_request piece0
                             (map converted_value (request_pieces prompt_request))
                             ''text'' ''none''))) \<rparr>"

definition example_configuration :: PromptConverterConfiguration where
  "example_configuration =
     \<lparr> converters = [upper_a_converter, append_converter ''a''],
       indexes_to_apply = Some [0],
       prompt_data_types_to_apply = None \<rparr>"

definition example_text_configuration :: PromptConverterConfiguration where
  "example_text_configuration =
     \<lparr> converters = [append_converter ''a''],
       indexes_to_apply = None,
       prompt_data_types_to_apply = Some [''text''] \<rparr>"

definition example_response_configuration :: PromptConverterConfiguration where
  "example_response_configuration =
     \<lparr> converters = [append_converter ''X''],
       indexes_to_apply = None,
       prompt_data_types_to_apply = None \<rparr>"

definition example_request :: PromptRequestResponse where
  "example_request =
     build_prompt_request_response example_normalizer example_group None []
       (constant_target (Inr None)) (-1) None None ''uuid-1''"

definition example_requests :: "NormalizerRequest list" where
  "example_requests =
     [\<lparr> nr_seed_prompt_group =
          \<lparr> prompts = [\<lparr> seed_value = ''first'', data_type = ''text'', metadata = None \<rparr>] \<rparr>,
        nr_request_converter_configurations = [],
        nr_response_converter_configurations = [],
        nr_conversation_id = None \<rparr>,
      \<lparr> nr_seed_prompt_group =
          \<lparr> prompts = [\<lparr> seed_value = ''second'', data_type = ''text'', metadata = None \<rparr>] \<rparr>,
        nr_request_converter_configurations = [],
        nr_response_converter_configurations = [],
        nr_conversation_id = Some ''c2'' \<rparr>]"

definition summary :: "PromptRequestResponse \<Rightarrow> (string \<times> string \<times> string \<times> string \<times> string option) list" where
  "summary entry =
     map (\<lambda>piece. (role piece, converted_value piece, converted_value_data_type piece,
                    response_error piece, converted_value_sha256 piece))
       (request_pieces entry)"

lemmas example_defs =
  example_normalizer_def example_hash_def append_converter_def upper_a_converter_def
  example_group_def constant_target_def example_configuration_def example_request_def
  example_text_configuration_def example_response_configuration_def
  summary_def

lemmas model_defs =
  send_prompt_async_def build_prompt_request_response_def resolve_conversation_id_def
  calc_hash_and_add_request_to_memory_def gather_sha256_tasks_def
  add_request_response_to_memory_def set_sha256_values_async_def
  construct_response_from_request_def new_PromptRequestPiece_def after_try_def
  convert_piece_def skips_def Let_def

section \<open>Properties of \<^verbatim>\<open>convert_values\<close>\<close>

lemma frame_fields_convert_piece:
  "frame_fields (convert_piece self cfg i p) = frame_fields p"
  by (simp add: convert_piece_def frame_fields_def Let_def split: prod.splits)

lemma map_frame_fields_convert_pieces:
  "map frame_fields (convert_pieces self cfg i ps) = map frame_fields ps"
  by (induction ps arbitrary: i) (simp_all add: frame_fields_convert_piece)

lemma length_convert_pieces:
  "length (convert_pieces self cfg i ps) = length ps"
  by (induction ps arbitrary: i) simp_all

lemma nth_convert_pieces:
  "k < length ps \<Longrightarrow> convert_pieces self cfg i ps ! k = convert_piece self cfg (i + k) (ps ! k)"
proof (induction ps arbitrary: i k)
  case Nil
  then show ?case by simp
next
  case (Cons p ps)
  then show ?case by (cases k) simp_all
qed

lemma map_frame_fields_convert_values:
  "map frame_fields (request_pieces (convert_values self cfgs rr)) = map frame_fields (request_pieces rr)"
  by (induction cfgs arbitrary: rr) (simp_all add: map_frame_fields_convert_pieces)

lemma length_convert_values:
  "length (request_pieces (convert_values self cfgs rr)) = length (request_pieces rr)"
  by (induction cfgs arbitrary: rr) (simp_all add: length_convert_pieces)

lemma convert_values_skipped:
  "i < length (request_pieces rr) \<Longrightarrow> \<forall>cfg \<in> set cfgs. skips cfg i (request_pieces rr ! i) \<Longrightarrow>
   request_pieces (convert_values self cfgs rr) ! i = request_pieces rr ! i"
proof (induction cfgs arbitrary: rr)
  case Nil
  then show ?case by simp
next
  case (Cons cfg cfgs)
  let ?rr1 = "rr\<lparr>request_pieces := convert_pieces self cfg 0 (request_pieces rr)\<rparr>"
  have same: "request_pieces ?rr1 ! i = request_pieces rr ! i"
    using Cons.prems by (simp add: nth_convert_pieces convert_piece_def)
  have "request_pieces (convert_values self cfgs ?rr1) ! i = request_pieces ?rr1 ! i"
    using Cons.prems same by (intro Cons.IH) (simp_all add: length_convert_pieces)
  then show ?case using same by simp
qed

lemma run_converters_fold:
  "run_converters self cs v t = fold (convert_once self) cs (v, t)"
  by (induction cs arbitrary: v t) (simp_all add: convert_once_def Let_def)

lemma run_converters_snoc:
  "run_converters self (cs @ [c]) v t = convert_once self c (run_converters self cs v t)"
  by (simp add: run_converters_fold)

lemma run_converters_step:
  assumes "n < length cs"
  shows "run_converters self (take (Suc n) cs) v t
         = convert_once self (cs ! n) (run_converters self (take n cs) v t)"
  using assms by (simp add: take_Suc_conv_app_nth run_converters_snoc)

lemma skips_iff:
  "(\<not> skips cfg i p) =
   chain_applies (opt_set (indexes_to_apply cfg)) (opt_set (prompt_data_types_to_apply cfg))
     (int i) (converted_value_data_type p)"
proof -
  have a: "(truthy xs \<and> \<not> py_in x xs) = (\<not> (opt_set xs = {} \<or> x \<in> opt_set xs))" for x :: 'a and xs
    by (cases xs) auto
  show ?thesis
    unfolding skips_def chain_applies_def Let_def a by blast
qed

lemma skips_converters_update:
  "skips (cfg\<lparr>converters := cs\<rparr>) i p = skips cfg i p"
  by (simp add: skips_def)

lemma converted_convert_piece:
  "\<not> skips cfg i p \<Longrightarrow>
   converted (convert_piece self cfg i p) = fold (convert_once self) (converters cfg) (converted p)"
  by (simp add: convert_piece_def converted_def run_converters_fold Let_def split: prod.splits)

lemma identifiers_convert_piece:
  "\<not> skips cfg i p \<Longrightarrow>
   converter_identifiers (convert_piece self cfg i p)
   = converter_identifiers p @ map converter_get_identifier (converters cfg)"
  by (simp add: convert_piece_def Let_def split: prod.splits)

lemma convert_values_single:
  "i < length (request_pieces rr) \<Longrightarrow>
   request_pieces (convert_values self [cfg] rr) ! i = convert_piece self cfg i (request_pieces rr ! i)"
  by (simp add: nth_convert_pieces)

lemma convert_values_snoc:
  "convert_values self (cfgs @ [cfg]) rr
   = (convert_values self cfgs rr)
       \<lparr>request_pieces := convert_pieces self cfg 0 (request_pieces (convert_values self cfgs rr))\<rparr>"
  by (induction cfgs arbitrary: rr) simp_all

lemma convert_values_last:
  assumes "i < length (request_pieces rr)"
  shows "request_pieces (convert_values self (cfgs @ [cfg]) rr) ! i
         = convert_piece self cfg i (request_pieces (convert_values self cfgs rr) ! i)"
proof -
  have "i < length (request_pieces (convert_values self cfgs rr))"
    using assms by (simp add: length_convert_values)
  then show ?thesis
    by (simp add: convert_values_snoc nth_convert_pieces)
qed

text \<open>
  Claim C6. Take any list of configurations and any configuration \<open>cfg\<close> run after them
  (the list may be empty, and every position of a longer list is the last of a prefix). For
  a piece \<open>cfg\<close> applies to, as the configurations before it left the piece, the converters
  run in the order of the chain: the piece's converted value and type become the result of
  folding the chain over the value and type it had, converter \<open>n\<close> receiving what the
  converters before it produced, and the converters' identifiers are appended to the piece's
  list in chain order. So the chains \<open>[A, B]\<close> and \<open>[B, A]\<close> give different results on a piece
  wherever \<open>A\<close> and \<open>B\<close> do not commute on the piece's content.
\<close>

theorem convert_values_chain_order:
  assumes "i < length (request_pieces rr)"
    and "\<not> skips cfg i (request_pieces (convert_values self cfgs rr) ! i)"
  shows "converted (request_pieces (convert_values self (cfgs @ [cfg]) rr) ! i)
           = fold (convert_once self) (converters cfg)
               (converted (request_pieces (convert_values self cfgs rr) ! i))
       \<and> (\<forall>n < length (converters cfg).
            run_converters self (take (Suc n) (converters cfg)) v t
            = convert_once self (converters cfg ! n)
                (run_converters self (take n (converters cfg)) v t))
       \<and> converter_identifiers (request_pieces (convert_values self (cfgs @ [cfg]) rr) ! i)
           = converter_identifiers (request_pieces (convert_values self cfgs rr) ! i)
             @ map converter_get_identifier (converters cfg)
       \<and> (convert_once self B
              (convert_once self A (converted (request_pieces (convert_values self cfgs rr) ! i)))
            \<noteq> convert_once self A
                (convert_once self B (converted (request_pieces (convert_values self cfgs rr) ! i)))
          \<longrightarrow> converted (request_pieces
                  (convert_values self (cfgs @ [cfg\<lparr>converters := [A, B]\<rparr>]) rr) ! i)
            \<noteq> converted (request_pieces
                  (convert_values self (cfgs @ [cfg\<lparr>converters := [B, A]\<rparr>]) rr) ! i))"
proof -
  let ?p = "request_pieces (convert_values self cfgs rr) ! i"
  have one: "converted (request_pieces (convert_values self (cfgs @ [cfg]) rr) ! i)
           = fold (convert_once self) (converters cfg) (converted ?p)"
    unfolding convert_values_last [OF assms(1)] using assms(2) by (rule converted_convert_piece)
  have two: "\<forall>n < length (converters cfg).
            run_converters self (take (Suc n) (converters cfg)) v t
            = convert_once self (converters cfg ! n)
                (run_converters self (take n (converters cfg)) v t)"
    by (simp add: run_converters_step)
  have three: "converter_identifiers (request_pieces (convert_values self (cfgs @ [cfg]) rr) ! i)
           = converter_identifiers ?p @ map converter_get_identifier (converters cfg)"
    unfolding convert_values_last [OF assms(1)] using assms(2) by (rule identifiers_convert_piece)
  have ab: "converted (request_pieces (convert_values self (cfgs @ [cfg\<lparr>converters := cs\<rparr>]) rr) ! i)
            = fold (convert_once self) cs (converted ?p)" for cs
    unfolding convert_values_last [OF assms(1)] using assms(2)
    by (simp add: converted_convert_piece skips_converters_update)
  have four: "convert_once self B (convert_once self A (converted ?p))
            \<noteq> convert_once self A (convert_once self B (converted ?p))
          \<longrightarrow> converted (request_pieces
                  (convert_values self (cfgs @ [cfg\<lparr>converters := [A, B]\<rparr>]) rr) ! i)
            \<noteq> converted (request_pieces
                  (convert_values self (cfgs @ [cfg\<lparr>converters := [B, A]\<rparr>]) rr) ! i)"
    unfolding ab by simp
  from one two three four show ?thesis by blast
qed

theorem convert_values_chain_order_witness:
  "converted (request_pieces
      (convert_values example_normalizer [example_text_configuration] example_request) ! 0)
   = (''aa'', ''text'')
   \<and> converted (request_pieces
      (convert_values example_normalizer ([example_text_configuration] @ [example_configuration])
         example_request) ! 0)
     = (''AAa'', ''text'')
   \<and> converter_identifiers (request_pieces
      (convert_values example_normalizer ([example_text_configuration] @ [example_configuration])
         example_request) ! 0)
     = [[(''__type__'', ''a'')], [(''__type__'', ''UpperA'')], [(''__type__'', ''a'')]]
   \<and> converted (request_pieces
      (convert_values example_normalizer
         ([example_text_configuration]
          @ [example_configuration\<lparr>converters := [append_converter ''a'', upper_a_converter]\<rparr>])
         example_request) ! 0)
     = (''AAA'', ''text'')"
proof -
  have h1: "0 < length (request_pieces example_request)"
    by (simp add: example_defs model_defs)
  have h2: "\<not> skips example_configuration 0
              (request_pieces
                 (convert_values example_normalizer [example_text_configuration] example_request) ! 0)"
    by (simp add: example_defs model_defs)
  show ?thesis
    using convert_values_chain_order [OF h1 h2, where v = "''a''" and t = "''text''"
        and A = upper_a_converter and B = "append_converter ''a''"]
    by (simp add: example_defs model_defs converted_def convert_once_def)
qed

text \<open>
  Claim C7. The loop body runs for a piece, that is neither \<^verbatim>\<open>continue\<close> is taken, exactly
  when the index set is empty or holds the piece's index, and the data type set is empty or
  holds the piece's current converted data type. A piece that every configuration skips
  comes out of \<^verbatim>\<open>convert_values\<close> unchanged.
\<close>

theorem convert_values_filter:
  "(\<not> skips cfg i p) =
     chain_applies (opt_set (indexes_to_apply cfg)) (opt_set (prompt_data_types_to_apply cfg))
       (int i) (converted_value_data_type p)
   \<and> (i < length (request_pieces rr) \<and> (\<forall>c \<in> set cfgs. skips c i (request_pieces rr ! i))
      \<longrightarrow> request_pieces (convert_values self cfgs rr) ! i = request_pieces rr ! i)"
  using skips_iff convert_values_skipped by blast

theorem convert_values_filter_witness:
  "skips example_configuration 1 (request_pieces example_request ! 1)
   \<and> \<not> skips example_configuration 0 (request_pieces example_request ! 0)
   \<and> request_pieces (convert_values example_normalizer [example_configuration] example_request) ! 1
     = request_pieces example_request ! 1"
  using convert_values_filter [where cfg = example_configuration and i = 1
      and p = "request_pieces example_request ! 1" and rr = example_request
      and cfgs = "[example_configuration]" and self = example_normalizer]
  by (simp add: example_defs model_defs)

text \<open>
  Claim C10. \<^verbatim>\<open>convert_values\<close> changes nothing of a piece but its converted value, its
  converted data type and its converter identifiers: role, original value and data type,
  conversation identifier, sequence number, labels, metadata, the endpoint's and the
  orchestrator's identifiers, the error kind and the hashes of every piece are what they
  were, and the pieces are as many as before.
\<close>

theorem convert_values_frame:
  "map frame_fields (request_pieces (convert_values self cfgs rr))
   = map frame_fields (request_pieces rr)
   \<and> length (request_pieces (convert_values self cfgs rr)) = length (request_pieces rr)"
proof (induction cfgs arbitrary: rr)
  case Nil
  show ?case by simp
next
  case (Cons cfg cfgs)
  let ?rr1 = "rr\<lparr>request_pieces := convert_pieces self cfg 0 (request_pieces rr)\<rparr>"
  have "map frame_fields (request_pieces ?rr1) = map frame_fields (request_pieces rr)"
    by (simp add: map_frame_fields_convert_pieces)
  moreover have "length (request_pieces ?rr1) = length (request_pieces rr)"
    by (simp add: length_convert_pieces)
  ultimately show ?case
    using Cons.IH [of ?rr1] by simp
qed

theorem convert_values_frame_witness:
  "map frame_fields
     (request_pieces (convert_values example_normalizer [example_configuration] example_request))
   = map frame_fields (request_pieces example_request)
   \<and> map converted_value
       (request_pieces (convert_values example_normalizer [example_configuration] example_request))
     = [''Aa'', ''b'']"
  using convert_values_frame [of example_normalizer "[example_configuration]" example_request]
  by (simp add: example_defs model_defs)

section \<open>Properties of \<^verbatim>\<open>send_prompt_async\<close>\<close>

lemma calc_hash_and_add_eq:
  "calc_hash_and_add_request_to_memory H request mem
   = (gather_sha256_tasks H request, mem @ [gather_sha256_tasks H request])"
  by (simp add: calc_hash_and_add_request_to_memory_def add_request_response_to_memory_def Let_def)

lemma hash_matches_set_sha256: "hash_matches H (set_sha256_values_async H piece)"
  by (simp add: hash_matches_def set_sha256_values_async_def)

lemma hash_matches_gather: "list_all (hash_matches H) (request_pieces (gather_sha256_tasks H request))"
  by (simp add: gather_sha256_tasks_def list_all_iff hash_matches_set_sha256)

lemma after_try_cases:
  "after_try H self cfgs response mem =
     (case response of None \<Rightarrow> (Inr None, mem)
      | Some r \<Rightarrow> (Inr (Some (gather_sha256_tasks H (convert_values self cfgs r))),
                   mem @ [gather_sha256_tasks H (convert_values self cfgs r)]))"
  by (simp add: after_try_def calc_hash_and_add_eq Let_def split: option.splits)

lemma build_pieces_nonempty:
  "prompts g \<noteq> [] \<Longrightarrow>
   request_pieces (build_prompt_request_response self g cid reqc tgt sq lbl orch uuid) \<noteq> []"
proof -
  have "length (request_pieces (build_prompt_request_response self g cid reqc tgt sq lbl orch uuid))
        = length (prompts g)"
    by (simp add: build_prompt_request_response_def Let_def length_convert_values)
  then show "prompts g \<noteq> [] \<Longrightarrow> ?thesis" by auto
qed

lemma gather_pieces_nonempty:
  "request_pieces rr \<noteq> [] \<Longrightarrow> request_pieces (gather_sha256_tasks H rr) \<noteq> []"
  by (simp add: gather_sha256_tasks_def)

lemma send_prompt_async_returned:
  assumes "target_send_prompt_async tgt (build_prompt_request_response self g cid reqc tgt sq lbl orch uuid) = Inr response"
  shows "send_prompt_async H self g tgt cid reqc respc sq lbl orch uuid mem
         = after_try H self respc response
             (mem @ [gather_sha256_tasks H (build_prompt_request_response self g cid reqc tgt sq lbl orch uuid)])"
  using assms by (simp add: send_prompt_async_def calc_hash_and_add_eq Let_def)

lemma send_prompt_async_empty:
  assumes "target_send_prompt_async tgt (build_prompt_request_response self g cid reqc tgt sq lbl orch uuid) = Inl ex"
    and "is_EmptyResponseException ex"
    and "request_pieces (build_prompt_request_response self g cid reqc tgt sq lbl orch uuid) \<noteq> []"
  shows "send_prompt_async H self g tgt cid reqc respc sq lbl orch uuid mem
         = after_try H self respc
             (Some (construct_response_from_request
                (hd (request_pieces (gather_sha256_tasks H (build_prompt_request_response self g cid reqc tgt sq lbl orch uuid))))
                [''''] ''text'' ''empty''))
             (mem @ [gather_sha256_tasks H (build_prompt_request_response self g cid reqc tgt sq lbl orch uuid)])"
  using assms gather_pieces_nonempty [OF assms(3), of H]
  by (simp add: send_prompt_async_def calc_hash_and_add_eq Let_def split: list.splits)

lemma send_prompt_async_raised:
  assumes "target_send_prompt_async tgt (build_prompt_request_response self g cid reqc tgt sq lbl orch uuid) = Inl ex"
    and "\<not> is_EmptyResponseException ex"
    and "request_pieces (build_prompt_request_response self g cid reqc tgt sq lbl orch uuid) \<noteq> []"
  shows "send_prompt_async H self g tgt cid reqc respc sq lbl orch uuid mem
         = (Inl ex,
            mem @ [gather_sha256_tasks H (build_prompt_request_response self g cid reqc tgt sq lbl orch uuid),
                   gather_sha256_tasks H (construct_response_from_request
                     (hd (request_pieces (gather_sha256_tasks H (build_prompt_request_response self g cid reqc tgt sq lbl orch uuid))))
                     [str ex] ''error'' ''processing'')])"
  using assms gather_pieces_nonempty [OF assms(3), of H]
  by (simp add: send_prompt_async_def calc_hash_and_add_eq Let_def split: list.splits)

lemma send_prompt_async_no_pieces:
  assumes "target_send_prompt_async tgt (build_prompt_request_response self g cid reqc tgt sq lbl orch uuid) = Inl ex"
    and "request_pieces (build_prompt_request_response self g cid reqc tgt sq lbl orch uuid) = []"
  shows "send_prompt_async H self g tgt cid reqc respc sq lbl orch uuid mem
         = (Inl (IndexError ''list index out of range''),
            mem @ [gather_sha256_tasks H (build_prompt_request_response self g cid reqc tgt sq lbl orch uuid)])"
  using assms
  by (simp add: send_prompt_async_def calc_hash_and_add_eq Let_def gather_sha256_tasks_def split: list.splits)

lemma length_build:
  "length (request_pieces (build_prompt_request_response self g cid reqc tgt sq lbl orch uuid))
   = length (prompts g)"
  by (simp add: build_prompt_request_response_def Let_def length_convert_values)

lemma build_pieces_empty_iff:
  "(request_pieces (build_prompt_request_response self g cid reqc tgt sq lbl orch uuid) = [])
   = (prompts g = [])"
  using length_build [of self g cid reqc tgt sq lbl orch uuid] by (metis length_0_conv)

text \<open>
  Claim C1. A call of \<^verbatim>\<open>send_prompt_async\<close> that reaches the endpoint writes the built request,
  with its hashes, to the store once, as the first entry it adds, whatever the endpoint does.
  Everything else the call adds is the record of the response: nothing when the call returns
  \<^verbatim>\<open>None\<close>, the returned response when it returns one, and the failure record when it raises
  (for a request with at least one piece). The store is the one the call leaves behind, so
  when an exception reaches the caller both the request and the failure record are already
  written.
\<close>

theorem send_prompt_async_persists_request_once:
  fixes H self g tgt cid reqc respc sq lbl orch uuid mem
  defines "request \<equiv> build_prompt_request_response self g cid reqc tgt sq lbl orch uuid"
  defines "result \<equiv> send_prompt_async H self g tgt cid reqc respc sq lbl orch uuid mem"
  shows "snd result =
           mem @ [gather_sha256_tasks H request] @
           (case fst result of
              Inr None \<Rightarrow> []
            | Inr (Some response) \<Rightarrow> [response]
            | Inl ex \<Rightarrow>
                if prompts g = [] then []
                else [gather_sha256_tasks H
                        (construct_response_from_request
                           (hd (request_pieces (gather_sha256_tasks H request)))
                           [str ex] ''error'' ''processing'')])"
proof (cases "target_send_prompt_async tgt request")
  case (Inr response)
  then have "result = after_try H self respc response (mem @ [gather_sha256_tasks H request])"
    unfolding result_def request_def by (rule send_prompt_async_returned)
  then show ?thesis
    by (simp add: after_try_cases split: option.splits)
next
  case (Inl ex)
  show ?thesis
  proof (cases "prompts g = []")
    case True
    then have "request_pieces request = []"
      unfolding request_def by (simp add: build_pieces_empty_iff)
    with Inl have "result = (Inl (IndexError ''list index out of range''),
                             mem @ [gather_sha256_tasks H request])"
      unfolding result_def request_def by (rule send_prompt_async_no_pieces)
    with True show ?thesis by simp
  next
    case False
    then have ne: "request_pieces request \<noteq> []"
      unfolding request_def by (simp add: build_pieces_empty_iff)
    show ?thesis
    proof (cases "is_EmptyResponseException ex")
      case True
      with Inl ne have "result = after_try H self respc
             (Some (construct_response_from_request
                (hd (request_pieces (gather_sha256_tasks H request))) [''''] ''text'' ''empty''))
             (mem @ [gather_sha256_tasks H request])"
        unfolding result_def request_def by (intro send_prompt_async_empty)
      then show ?thesis by (simp add: after_try_cases)
    next
      case notempty: False
      with Inl ne have "result = (Inl ex,
            mem @ [gather_sha256_tasks H request,
                   gather_sha256_tasks H (construct_response_from_request
                     (hd (request_pieces (gather_sha256_tasks H request)))
                     [str ex] ''error'' ''processing'')])"
        unfolding result_def request_def by (intro send_prompt_async_raised)
      with False show ?thesis by simp
    qed
  qed
qed

theorem send_prompt_async_persists_request_once_witness:
  "map summary
     (snd (send_prompt_async example_hash example_normalizer example_group
             (constant_target (Inl (Exception ''quota exceeded''))) None [] [] (-1) None None
             ''uuid-1'' []))
   = [[(''user'', ''a'', ''text'', ''none'', Some ''#a''),
       (''user'', ''b'', ''image_path'', ''none'', Some ''#b'')],
      [(''assistant'', ''quota exceeded'', ''error'', ''processing'', Some ''#quota exceeded'')]]"
  using send_prompt_async_persists_request_once
    [of example_hash example_normalizer example_group
        "constant_target (Inl (Exception ''quota exceeded''))" None "[]" "[]" "-1" None None
        "''uuid-1''" "[]"]
  by (simp add: example_defs model_defs)

text \<open>
  Claim C2. When the endpoint raises an exception other than \<^verbatim>\<open>EmptyResponseException\<close>, the
  call writes the request, then an error response whose one piece has the text \<^verbatim>\<open>str(ex)\<close> as
  its value and the error kind \<^verbatim>\<open>processing\<close>, and raises the same exception. The group
  has at least one seed prompt, so that the request has a first piece to answer.
\<close>

theorem send_prompt_async_failure_persisted_and_reraised:
  fixes H self g tgt cid reqc respc sq lbl orch uuid mem
  defines "request \<equiv> build_prompt_request_response self g cid reqc tgt sq lbl orch uuid"
  assumes "prompts g \<noteq> []"
    and "target_send_prompt_async tgt request = Inl ex"
    and "\<not> is_EmptyResponseException ex"
  shows "\<exists>error_response.
           send_prompt_async H self g tgt cid reqc respc sq lbl orch uuid mem
             = (Inl ex, mem @ [gather_sha256_tasks H request, error_response])
         \<and> map (\<lambda>piece. (original_value piece, converted_value piece, response_error piece))
               (request_pieces error_response)
             = [(str ex, str ex, ''processing'')]"
proof -
  let ?err = "gather_sha256_tasks H (construct_response_from_request
                (hd (request_pieces (gather_sha256_tasks H request))) [str ex] ''error'' ''processing'')"
  have ne: "request_pieces request \<noteq> []"
    using assms(2) unfolding request_def by (simp add: build_pieces_empty_iff)
  have run: "send_prompt_async H self g tgt cid reqc respc sq lbl orch uuid mem
        = (Inl ex, mem @ [gather_sha256_tasks H request, ?err])"
    using assms(3,4) ne unfolding request_def by (intro send_prompt_async_raised)
  have content: "map (\<lambda>piece. (original_value piece, converted_value piece, response_error piece))
               (request_pieces ?err) = [(str ex, str ex, ''processing'')]"
    by (simp add: gather_sha256_tasks_def construct_response_from_request_def
        new_PromptRequestPiece_def set_sha256_values_async_def)
  show ?thesis
    by (rule exI [of _ ?err], rule conjI, rule run, rule content)
qed

theorem send_prompt_async_failure_persisted_and_reraised_witness:
  "fst (send_prompt_async example_hash example_normalizer example_group
          (constant_target (Inl (Exception ''quota exceeded''))) None [] [] (-1) None None
          ''uuid-1'' [])
   = Inl (Exception ''quota exceeded'')
   \<and> map (\<lambda>piece. (original_value piece, converted_value piece, response_error piece))
         (request_pieces (last (snd (send_prompt_async example_hash example_normalizer example_group
            (constant_target (Inl (Exception ''quota exceeded''))) None [] [] (-1) None None
            ''uuid-1'' []))))
     = [(''quota exceeded'', ''quota exceeded'', ''processing'')]"
proof -
  have h1: "prompts example_group \<noteq> []"
    by (simp add: example_group_def)
  have h2: "target_send_prompt_async (constant_target (Inl (Exception ''quota exceeded'')))
              (build_prompt_request_response example_normalizer example_group None []
                 (constant_target (Inl (Exception ''quota exceeded''))) (-1) None None ''uuid-1'')
            = Inl (Exception ''quota exceeded'')"
    by (simp add: constant_target_def)
  have h3: "\<not> is_EmptyResponseException (Exception ''quota exceeded'')"
    by simp
  show ?thesis
    using send_prompt_async_failure_persisted_and_reraised [OF h1 h2 h3, of example_hash "[]" "[]"]
    by (simp add: example_defs model_defs)
qed

text \<open>
  Claim C3, as amended. When the endpoint raises \<^verbatim>\<open>EmptyResponseException\<close> on a request with
  at least one piece, the call does not raise. It writes the request with its hashes
  computed and synthesizes a response of one piece of empty text with the error kind
  \<^verbatim>\<open>empty\<close>. That response then takes the path of every response: the response converters
  run on it, it is hashed, written to the store and returned. What is stored and returned is
  still one piece of kind \<^verbatim>\<open>empty\<close> whose original value is the empty text; its converted
  value is what the response converters make of the empty text, which is the empty text
  when no response converter is configured.
\<close>

theorem send_prompt_async_empty_response:
  fixes H self g tgt cid reqc respc sq lbl orch uuid mem
  defines "request \<equiv> build_prompt_request_response self g cid reqc tgt sq lbl orch uuid"
  defines "synthesized \<equiv> construct_response_from_request
                (hd (request_pieces (gather_sha256_tasks H request))) [''''] ''text'' ''empty''"
  assumes "prompts g \<noteq> []"
    and "target_send_prompt_async tgt request = Inl ex"
    and "is_EmptyResponseException ex"
  shows "\<exists>response.
           send_prompt_async H self g tgt cid reqc respc sq lbl orch uuid mem
             = (Inr (Some response), mem @ [gather_sha256_tasks H request, response])
         \<and> response = gather_sha256_tasks H (convert_values self respc synthesized)
         \<and> map (\<lambda>piece. (original_value piece, original_value_data_type piece, response_error piece))
               (request_pieces response)
             = [('''', ''text'', ''empty'')]
         \<and> map (\<lambda>piece. (converted_value piece, converted_value_data_type piece, response_error piece))
               (request_pieces synthesized)
             = [('''', ''text'', ''empty'')]
         \<and> (respc = [] \<longrightarrow> map converted_value (request_pieces response) = [''''])
         \<and> list_all (hash_matches H) (request_pieces (gather_sha256_tasks H request))"
proof -
  let ?resp = "gather_sha256_tasks H (convert_values self respc synthesized)"
  have ne: "request_pieces request \<noteq> []"
    using assms(3) unfolding request_def by (simp add: build_pieces_empty_iff)
  have "send_prompt_async H self g tgt cid reqc respc sq lbl orch uuid mem
        = after_try H self respc (Some synthesized) (mem @ [gather_sha256_tasks H request])"
    using assms(4,5) ne unfolding request_def synthesized_def by (intro send_prompt_async_empty)
  then have run: "send_prompt_async H self g tgt cid reqc respc sq lbl orch uuid mem
        = (Inr (Some ?resp), mem @ [gather_sha256_tasks H request, ?resp])"
    by (simp add: after_try_cases)
  have syn: "map frame_fields (request_pieces synthesized)
        = [(''assistant'', '''', ''text'', conversation_id (hd (request_pieces (gather_sha256_tasks H request))),
            -1, labels (hd (request_pieces (gather_sha256_tasks H request))), None,
            prompt_target_identifier (hd (request_pieces (gather_sha256_tasks H request))),
            orchestrator_identifier (hd (request_pieces (gather_sha256_tasks H request))),
            ''empty'', None, None)]"
    by (simp add: synthesized_def construct_response_from_request_def new_PromptRequestPiece_def
        frame_fields_def)
  have "map frame_fields (request_pieces (convert_values self respc synthesized))
        = map frame_fields (request_pieces synthesized)"
    by (rule map_frame_fields_convert_values)
  then have "map (\<lambda>piece. (original_value piece, original_value_data_type piece, response_error piece))
               (request_pieces (convert_values self respc synthesized))
             = [('''', ''text'', ''empty'')]"
    unfolding syn by (auto simp: frame_fields_def map_eq_Cons_conv)
  then have orig: "map (\<lambda>piece. (original_value piece, original_value_data_type piece, response_error piece))
               (request_pieces ?resp) = [('''', ''text'', ''empty'')]"
    by (auto simp: gather_sha256_tasks_def set_sha256_values_async_def map_eq_Cons_conv)
  have conv: "map (\<lambda>piece. (converted_value piece, converted_value_data_type piece, response_error piece))
               (request_pieces synthesized) = [('''', ''text'', ''empty'')]"
    by (simp add: synthesized_def construct_response_from_request_def new_PromptRequestPiece_def)
  have plain: "respc = [] \<longrightarrow> map converted_value (request_pieces ?resp) = ['''']"
    by (simp add: synthesized_def construct_response_from_request_def new_PromptRequestPiece_def
        gather_sha256_tasks_def set_sha256_values_async_def)
  show ?thesis
    by (rule exI [of _ ?resp], intro conjI, rule run, rule refl, rule orig, rule conv,
        rule plain, rule hash_matches_gather)
qed

theorem send_prompt_async_empty_response_witness:
  "map_sum id (map_option summary)
     (fst (send_prompt_async example_hash example_normalizer example_group
             (constant_target (Inl (EmptyResponseException ''filtered''))) None [] [] (-1) None None
             ''uuid-1'' []))
   = Inr (Some [(''assistant'', '''', ''text'', ''empty'', Some ''#'')])
   \<and> map summary
       (snd (send_prompt_async example_hash example_normalizer example_group
               (constant_target (Inl (EmptyResponseException ''filtered''))) None [] [] (-1) None None
               ''uuid-1'' []))
     = [[(''user'', ''a'', ''text'', ''none'', Some ''#a''),
         (''user'', ''b'', ''image_path'', ''none'', Some ''#b'')],
        [(''assistant'', '''', ''text'', ''empty'', Some ''#'')]]"
proof -
  have h1: "prompts example_group \<noteq> []"
    by (simp add: example_group_def)
  have h2: "target_send_prompt_async (constant_target (Inl (EmptyResponseException ''filtered'')))
              (build_prompt_request_response example_normalizer example_group None []
                 (constant_target (Inl (EmptyResponseException ''filtered''))) (-1) None None ''uuid-1'')
            = Inl (EmptyResponseException ''filtered'')"
    by (simp add: constant_target_def)
  have h3: "is_EmptyResponseException (EmptyResponseException ''filtered'')"
    by simp
  show ?thesis
    using send_prompt_async_empty_response [OF h1 h2 h3, of example_hash "[]" "[]"]
    by (simp add: example_defs model_defs)
qed

text \<open>
  Claim C3 as first stated, with the synthesized piece of empty text itself stored and
  returned, does not hold: with one response converter that appends \<open>X\<close>, the piece stored
  and returned on an empty result has the converted value \<open>X\<close>.
\<close>

theorem send_prompt_async_empty_response_counterexample:
  "map_sum id (map_option summary)
     (fst (send_prompt_async example_hash example_normalizer example_group
             (constant_target (Inl (EmptyResponseException ''filtered''))) None []
             [example_response_configuration] (-1) None None ''uuid-1'' []))
   = Inr (Some [(''assistant'', ''X'', ''text'', ''empty'', Some ''#X'')])
   \<and> map summary
       (snd (send_prompt_async example_hash example_normalizer example_group
               (constant_target (Inl (EmptyResponseException ''filtered''))) None []
               [example_response_configuration] (-1) None None ''uuid-1'' []))
     = [[(''user'', ''a'', ''text'', ''none'', Some ''#a''),
         (''user'', ''b'', ''image_path'', ''none'', Some ''#b'')],
        [(''assistant'', ''X'', ''text'', ''empty'', Some ''#X'')]]
   \<and> ''X'' \<noteq> ''''"
  by (simp add: example_defs model_defs)

text \<open>
  Claim C8. When the endpoint returns \<^verbatim>\<open>None\<close> without raising, the call returns \<^verbatim>\<open>None\<close> and
  the request is the only entry it writes to the store.
\<close>

theorem send_prompt_async_none_response:
  assumes "target_send_prompt_async tgt (build_prompt_request_response self g cid reqc tgt sq lbl orch uuid)
           = Inr None"
  shows "send_prompt_async H self g tgt cid reqc respc sq lbl orch uuid mem
         = (Inr None,
            mem @ [gather_sha256_tasks H (build_prompt_request_response self g cid reqc tgt sq lbl orch uuid)])"
  using send_prompt_async_returned [OF assms, of H respc mem]
  by (simp add: after_try_cases)

theorem send_prompt_async_none_response_witness:
  "fst (send_prompt_async example_hash example_normalizer example_group
          (constant_target (Inr None)) None [] [] (-1) None None ''uuid-1'' [])
   = Inr None
   \<and> map summary
       (snd (send_prompt_async example_hash example_normalizer example_group
               (constant_target (Inr None)) None [] [] (-1) None None ''uuid-1'' []))
     = [[(''user'', ''a'', ''text'', ''none'', Some ''#a''),
         (''user'', ''b'', ''image_path'', ''none'', Some ''#b'')]]"
proof -
  have h: "target_send_prompt_async (constant_target (Inr None))
              (build_prompt_request_response example_normalizer example_group None []
                 (constant_target (Inr None)) (-1) None None ''uuid-1'')
            = Inr None"
    by (simp add: constant_target_def)
  show ?thesis
    unfolding send_prompt_async_none_response [OF h, of example_hash "[]" "[]"]
    by (simp add: example_defs model_defs)
qed

section \<open>Properties of the request builder and of the store\<close>

lemma frame_fields_new_piece:
  "frame_fields (new_PromptRequestPiece r v ty c sq lbl md tid oid err)
   = (r, v, ty, c, sq, lbl, md, tid, oid, err, None, None)"
  by (simp add: frame_fields_def new_PromptRequestPiece_def)

lemma map_frame_fields_build:
  "map frame_fields (request_pieces (build_prompt_request_response self g cid reqc tgt sq lbl orch uuid))
   = map (\<lambda>seed_prompt.
            (''user'', seed_value seed_prompt, data_type seed_prompt,
             resolve_conversation_id cid uuid, sq, lbl, metadata seed_prompt,
             target_get_identifier tgt, orch, ''none'', None, None))
         (prompts g)"
  by (simp add: build_prompt_request_response_def Let_def map_frame_fields_convert_values
      frame_fields_new_piece comp_def)

text \<open>
  Claim C4. The built request has one piece for each seed prompt, in the order of the group:
  each piece has the role \<^verbatim>\<open>user\<close>, the value, data type and metadata of its seed prompt,
  and the one conversation identifier of the call, which is the freshly generated one when
  the caller passes none and the caller's own when it passes a non-empty one.
\<close>

theorem build_prompt_request_response_pieces:
  "map (\<lambda>piece. (role piece, original_value piece, original_value_data_type piece,
                  prompt_metadata piece, conversation_id piece))
       (request_pieces (build_prompt_request_response self g cid reqc tgt sq lbl orch uuid))
   = map (\<lambda>seed_prompt. (''user'', seed_value seed_prompt, data_type seed_prompt,
                          metadata seed_prompt, resolve_conversation_id cid uuid))
         (prompts g)
   \<and> length (request_pieces (build_prompt_request_response self g cid reqc tgt sq lbl orch uuid))
     = length (prompts g)
   \<and> resolve_conversation_id None uuid = uuid
   \<and> resolve_conversation_id (Some (c # cs)) uuid = c # cs"
proof -
  let ?sel = "\<lambda>(r, v, ty, c, sq, lbl, md, rest). (r :: string, v :: string, ty :: string, md :: py_dict option, c :: string)"
  have sel: "(\<lambda>piece. (role piece, original_value piece, original_value_data_type piece,
                  prompt_metadata piece, conversation_id piece)) = ?sel \<circ> frame_fields"
    by (simp add: fun_eq_iff frame_fields_def)
  have "map (?sel \<circ> frame_fields)
          (request_pieces (build_prompt_request_response self g cid reqc tgt sq lbl orch uuid))
        = map ?sel (map frame_fields
            (request_pieces (build_prompt_request_response self g cid reqc tgt sq lbl orch uuid)))"
    by simp
  also have "\<dots> = map (\<lambda>seed_prompt. (''user'', seed_value seed_prompt, data_type seed_prompt,
                          metadata seed_prompt, resolve_conversation_id cid uuid)) (prompts g)"
    unfolding map_frame_fields_build by (simp add: comp_def)
  finally have pieces: "map (\<lambda>piece. (role piece, original_value piece, original_value_data_type piece,
                  prompt_metadata piece, conversation_id piece))
       (request_pieces (build_prompt_request_response self g cid reqc tgt sq lbl orch uuid))
   = map (\<lambda>seed_prompt. (''user'', seed_value seed_prompt, data_type seed_prompt,
                          metadata seed_prompt, resolve_conversation_id cid uuid))
         (prompts g)"
    unfolding sel .
  show ?thesis
    using pieces length_build [of self g cid reqc tgt sq lbl orch uuid]
    by (simp add: resolve_conversation_id_def)
qed

theorem build_prompt_request_response_pieces_witness:
  "map (\<lambda>piece. (role piece, original_value piece, original_value_data_type piece,
                  prompt_metadata piece, conversation_id piece))
       (request_pieces (build_prompt_request_response example_normalizer example_group None
          [example_configuration] (constant_target (Inr None)) (-1) None None ''uuid-1''))
   = [(''user'', ''a'', ''text'', None, ''uuid-1''),
      (''user'', ''b'', ''image_path'', Some [(''k'', ''v'')], ''uuid-1'')]"
  using build_prompt_request_response_pieces
    [of example_normalizer example_group None "[example_configuration]"
        "constant_target (Inr None)" "-1" None None "''uuid-1''"]
  by (simp add: example_group_def resolve_conversation_id_def)

lemma memory_hashes_match_append:
  "memory_hashes_match H (mem @ mem') = (memory_hashes_match H mem \<and> memory_hashes_match H mem')"
  by (simp add: memory_hashes_match_def)

lemma memory_hashes_match_gather:
  "memory_hashes_match H [gather_sha256_tasks H request]"
  by (simp add: memory_hashes_match_def hash_matches_gather)

lemma after_try_added:
  "\<exists>added. snd (after_try H self cfgs response mem) = mem @ added \<and> memory_hashes_match H added"
proof (cases response)
  case None
  then have "snd (after_try H self cfgs response mem) = mem @ []"
    by (simp add: after_try_cases)
  moreover have "memory_hashes_match H []"
    by (simp add: memory_hashes_match_def)
  ultimately show ?thesis by blast
next
  case (Some r)
  then have "snd (after_try H self cfgs response mem)
             = mem @ [gather_sha256_tasks H (convert_values self cfgs r)]"
    by (simp add: after_try_cases)
  then show ?thesis using memory_hashes_match_gather by blast
qed

lemma send_prompt_async_added:
  "\<exists>added. snd (send_prompt_async H self g tgt cid reqc respc sq lbl orch uuid mem) = mem @ added
      \<and> memory_hashes_match H added"
proof -
  let ?request = "build_prompt_request_response self g cid reqc tgt sq lbl orch uuid"
  let ?stored = "gather_sha256_tasks H ?request"
  let ?result = "send_prompt_async H self g tgt cid reqc respc sq lbl orch uuid mem"
  have tail: "\<exists>added. snd (after_try H self respc response (mem @ [?stored])) = mem @ added
                \<and> memory_hashes_match H added" for response
  proof -
    obtain added where a: "snd (after_try H self respc response (mem @ [?stored]))
                           = (mem @ [?stored]) @ added"
      and b: "memory_hashes_match H added"
      using after_try_added by blast
    have "memory_hashes_match H ([?stored] @ added)"
      using b memory_hashes_match_gather by (simp only: memory_hashes_match_append)
    with a show ?thesis by (metis append.assoc)
  qed
  show ?thesis
  proof (cases "target_send_prompt_async tgt ?request")
    case (Inr response)
    then have "?result = after_try H self respc response (mem @ [?stored])"
      by (rule send_prompt_async_returned)
    then show ?thesis using tail by simp
  next
    case (Inl ex)
    show ?thesis
    proof (cases "request_pieces ?request = []")
      case True
      with Inl have "?result = (Inl (IndexError ''list index out of range''), mem @ [?stored])"
        by (rule send_prompt_async_no_pieces)
      then show ?thesis using memory_hashes_match_gather by (metis snd_conv)
    next
      case ne: False
      show ?thesis
      proof (cases "is_EmptyResponseException ex")
        case True
        with Inl ne have "?result = after_try H self respc
             (Some (construct_response_from_request (hd (request_pieces ?stored)) [''''] ''text'' ''empty''))
             (mem @ [?stored])"
          by (intro send_prompt_async_empty)
        then show ?thesis using tail by simp
      next
        case False
        let ?err = "gather_sha256_tasks H (construct_response_from_request
                     (hd (request_pieces ?stored)) [str ex] ''error'' ''processing'')"
        from Inl False ne have "?result = (Inl ex, mem @ [?stored, ?err])"
          by (intro send_prompt_async_raised)
        moreover have "memory_hashes_match H [?stored, ?err]"
          using memory_hashes_match_gather [of H] memory_hashes_match_append [of H "[?stored]" "[?err]"]
          by simp
        ultimately show ?thesis by (metis snd_conv)
      qed
    qed
  qed
qed

text \<open>
  Claim C5. \<^verbatim>\<open>_calc_hash_and_add_request_to_memory\<close>, the only writer of the store, appends the
  request with each piece's hash set to the hash of the converted value the piece has at
  that moment; hashing leaves the converted value alone. A call of \<^verbatim>\<open>send_prompt_async\<close>
  keeps the entries the store already had as they were, and every entry it adds has, for
  every piece, the hash of that piece's converted value.
\<close>

theorem persisted_hash_matches_converted_value:
  "snd (calc_hash_and_add_request_to_memory H request mem) = mem @ [gather_sha256_tasks H request]
   \<and> map converted_value_sha256 (request_pieces (gather_sha256_tasks H request))
     = map (\<lambda>piece. Some (H (converted_value piece))) (request_pieces request)
   \<and> map converted_value (request_pieces (gather_sha256_tasks H request))
     = map converted_value (request_pieces request)
   \<and> memory_hashes_match H [gather_sha256_tasks H request]
   \<and> take (length mem) (snd (send_prompt_async H self g tgt cid reqc respc sq lbl orch uuid mem)) = mem
   \<and> memory_hashes_match H
       (drop (length mem) (snd (send_prompt_async H self g tgt cid reqc respc sq lbl orch uuid mem)))"
proof -
  obtain added where a: "snd (send_prompt_async H self g tgt cid reqc respc sq lbl orch uuid mem) = mem @ added"
    and b: "memory_hashes_match H added"
    using send_prompt_async_added by blast
  have "map converted_value_sha256 (request_pieces (gather_sha256_tasks H request))
     = map (\<lambda>piece. Some (H (converted_value piece))) (request_pieces request)"
    by (simp add: gather_sha256_tasks_def set_sha256_values_async_def comp_def)
  moreover have "map converted_value (request_pieces (gather_sha256_tasks H request))
     = map converted_value (request_pieces request)"
    by (simp add: gather_sha256_tasks_def set_sha256_values_async_def comp_def)
  ultimately show ?thesis
    using a b by (simp add: calc_hash_and_add_eq memory_hashes_match_gather)
qed

theorem persisted_hash_matches_converted_value_witness:
  "map summary (snd (calc_hash_and_add_request_to_memory example_hash example_request []))
   = [[(''user'', ''a'', ''text'', ''none'', Some ''#a''),
       (''user'', ''b'', ''image_path'', ''none'', Some ''#b'')]]"
  using persisted_hash_matches_converted_value
    [of example_hash example_request "[]" example_normalizer example_group
        "constant_target (Inr None)" None "[]" "[]" "-1" None None "''uuid-1''"]
  by (simp add: example_defs model_defs)

section \<open>Properties of the batch coordinator\<close>

lemma send_prompt_async_result_independent:
  "fst (send_prompt_async H self g tgt cid reqc respc sq lbl orch uuid mem)
   = fst (send_prompt_async H self g tgt cid reqc respc sq lbl orch uuid mem')"
  by (simp add: send_prompt_async_def calc_hash_and_add_eq after_try_cases Let_def
      split: sum.splits option.splits list.splits)

lemma complete_tasks_buffer:
  assumes indep: "\<And>i a b c d m m'. fst (task_func i a b c d m) = fst (task_func i a b c d m')"
    and len: "length as = n" "length bs = n" "length cs = n" "length ds = n"
    and buf: "length buffer = n"
    and ord: "set order \<subseteq> {..<n}"
  shows "fst (complete_tasks task_func (as, bs, cs, ds) order buffer mem)
         = map (\<lambda>i. if i \<in> set order
                     then Some (fst (task_func i (as ! i) (bs ! i) (cs ! i) (ds ! i) mem0))
                     else buffer ! i) [0..<n]"
  using buf ord
proof (induction order arbitrary: buffer mem)
  case Nil
  then have "map ((!) buffer) [0..<n] = buffer"
    using map_nth [of buffer] by simp
  then show ?case by simp
next
  case (Cons i rest)
  obtain result mem1 where step: "task_func i (as ! i) (bs ! i) (cs ! i) (ds ! i) mem = (result, mem1)"
    by (cases "task_func i (as ! i) (bs ! i) (cs ! i) (ds ! i) mem") blast
  have i: "i < n" and rest: "set rest \<subseteq> {..<n}"
    using Cons.prems(2) by auto
  have res: "result = fst (task_func i (as ! i) (bs ! i) (cs ! i) (ds ! i) mem0)"
    using step indep [of i "as ! i" "bs ! i" "cs ! i" "ds ! i" mem mem0] by simp
  have "fst (complete_tasks task_func (as, bs, cs, ds) (i # rest) buffer mem)
        = fst (complete_tasks task_func (as, bs, cs, ds) rest (buffer[i := Some result]) mem1)"
    using i len step by simp
  also have "\<dots> = map (\<lambda>j. if j \<in> set rest
                     then Some (fst (task_func j (as ! j) (bs ! j) (cs ! j) (ds ! j) mem0))
                     else buffer[i := Some result] ! j) [0..<n]"
    using Cons.prems(1) rest by (intro Cons.IH) simp_all
  also have "\<dots> = map (\<lambda>j. if j \<in> set (i # rest)
                     then Some (fst (task_func j (as ! j) (bs ! j) (cs ! j) (ds ! j) mem0))
                     else buffer ! j) [0..<n]"
    using Cons.prems(1) i res by (auto simp: nth_list_update)
  finally show ?case .
qed

text \<open>
  Claim C9. Whatever the order in which the dispatches of a batch complete, as long as each
  completes once, the coordinator hands back one entry for each request, and the entry at
  position \<open>i\<close> is the outcome of dispatching the request at position \<open>i\<close>. The outcome of a
  dispatch does not depend on what the store holds when it runs.
\<close>

theorem send_prompt_batch_to_target_async_order:
  assumes "set order = {..<length requests}"
  shows "fst (send_prompt_batch_to_target_async H self requests tgt lbl orch uuids order mem)
         = map (\<lambda>i. Some (fst (send_prompt_async H self
                                 (nr_seed_prompt_group (requests ! i)) tgt
                                 (nr_conversation_id (requests ! i))
                                 (nr_request_converter_configurations (requests ! i))
                                 (nr_response_converter_configurations (requests ! i))
                                 (-1) lbl orch (uuids i) mem0)))
             [0..<length requests]
       \<and> length (fst (send_prompt_batch_to_target_async H self requests tgt lbl orch uuids order mem))
         = length requests"
proof -
  let ?task = "\<lambda>i seed_prompt_group request_converter_configurations
                  response_converter_configurations conversation_id'.
                 send_prompt_async H self seed_prompt_group tgt conversation_id'
                   request_converter_configurations response_converter_configurations
                   (-1) lbl orch (uuids i)"
  let ?n = "length requests"
  have indep: "\<And>i a b c d m m'. fst (?task i a b c d m) = fst (?task i a b c d m')"
    by (rule send_prompt_async_result_independent)
  have ord: "set order \<subseteq> {..<?n}"
    using assms by simp
  have "fst (complete_tasks ?task
               (map nr_seed_prompt_group requests,
                map nr_request_converter_configurations requests,
                map nr_response_converter_configurations requests,
                map nr_conversation_id requests)
               order (replicate ?n None) mem)
        = map (\<lambda>i. if i \<in> set order
                    then Some (fst (?task i (map nr_seed_prompt_group requests ! i)
                                 (map nr_request_converter_configurations requests ! i)
                                 (map nr_response_converter_configurations requests ! i)
                                 (map nr_conversation_id requests ! i) mem0))
                    else replicate ?n None ! i) [0..<?n]"
    by (rule complete_tasks_buffer [OF indep _ _ _ _ _ ord]) simp_all
  also have "\<dots> = map (\<lambda>i. Some (fst (send_prompt_async H self
                                 (nr_seed_prompt_group (requests ! i)) tgt
                                 (nr_conversation_id (requests ! i))
                                 (nr_request_converter_configurations (requests ! i))
                                 (nr_response_converter_configurations (requests ! i))
                                 (-1) lbl orch (uuids i) mem0)))
             [0..<?n]"
    using assms by simp
  finally have main: "fst (send_prompt_batch_to_target_async H self requests tgt lbl orch uuids order mem)
         = map (\<lambda>i. Some (fst (send_prompt_async H self
                                 (nr_seed_prompt_group (requests ! i)) tgt
                                 (nr_conversation_id (requests ! i))
                                 (nr_request_converter_configurations (requests ! i))
                                 (nr_response_converter_configurations (requests ! i))
                                 (-1) lbl orch (uuids i) mem0)))
             [0..<?n]"
    by (simp add: send_prompt_batch_to_target_async_def batch_task_async_def Let_def)
  show ?thesis
    unfolding main by simp
qed

theorem send_prompt_batch_to_target_async_order_witness:
  "map (map_option (map_sum id (map_option summary)))
     (fst (send_prompt_batch_to_target_async example_hash example_normalizer example_requests
             echo_target None None (\<lambda>i. if i = 0 then ''uuid-1'' else ''uuid-2'') [1, 0] []))
   = [Some (Inr (Some [(''assistant'', ''first'', ''text'', ''none'', Some ''#first'')])),
      Some (Inr (Some [(''assistant'', ''second'', ''text'', ''none'', Some ''#second'')]))]"
proof -
  have h: "set [1, 0] = {..<length example_requests}"
    by (auto simp: example_requests_def)
  show ?thesis
    unfolding conjunct1 [OF send_prompt_batch_to_target_async_order
        [OF h, of example_hash example_normalizer echo_target None None
           "\<lambda>i. if i = 0 then ''uuid-1'' else ''uuid-2''" "[]" "[]"]]
    by (simp add: example_requests_def echo_target_def example_defs model_defs upt_rec)
qed

end
